theory Spec2Isabelle
  imports Complex_Main
begin

section \<open>Numbers\<close>

text \<open>
  A JavaScript number is modelled as a real, together with the three special values the
  source can produce: \<open>Infinity\<close> and \<open>-Infinity\<close> (the initial accumulators of
  \<open>getBoundingBox\<close>, \<open>Math.max()\<close> of no arguments) and \<open>NaN\<close> (arithmetic on
  \<open>undefined\<close>, \<open>0 / 0\<close>). Rounding of IEEE doubles and the sign of zero are not
  modelled: finite arithmetic is exact.
\<close>

datatype jsnum = Num real | PosInf | NegInf | NaN

text \<open>
  A numeric property of an object, or an element of an array of numbers: it can be missing
  (\<open>undefined\<close>), or \<open>null\<close> after a trip through JSON. \<open>toNumber\<close> is the conversion
  that arithmetic and \<open>Math.min\<close> apply to it.
\<close>

datatype jsval = Undefined | Null | Number jsnum

fun toNumber :: "jsval \<Rightarrow> jsnum" where
  "toNumber Undefined = NaN"
| "toNumber Null = Num 0"
| "toNumber (Number v) = v"

fun js_add :: "jsnum \<Rightarrow> jsnum \<Rightarrow> jsnum" where
  "js_add NaN _ = NaN"
| "js_add _ NaN = NaN"
| "js_add PosInf NegInf = NaN"
| "js_add NegInf PosInf = NaN"
| "js_add PosInf _ = PosInf"
| "js_add _ PosInf = PosInf"
| "js_add NegInf _ = NegInf"
| "js_add _ NegInf = NegInf"
| "js_add (Num a) (Num b) = Num (a + b)"

fun js_neg :: "jsnum \<Rightarrow> jsnum" where
  "js_neg (Num a) = Num (- a)"
| "js_neg PosInf = NegInf"
| "js_neg NegInf = PosInf"
| "js_neg NaN = NaN"

definition js_sub :: "jsnum \<Rightarrow> jsnum \<Rightarrow> jsnum" where
  "js_sub a b = js_add a (js_neg b)"

text \<open>Multiplication and division by a finite number; the zero divisor is \<open>+0\<close>.\<close>

fun js_mul :: "jsnum \<Rightarrow> real \<Rightarrow> jsnum" where
  "js_mul (Num a) k = Num (a * k)"
| "js_mul PosInf k = (if k > 0 then PosInf else if k < 0 then NegInf else NaN)"
| "js_mul NegInf k = (if k > 0 then NegInf else if k < 0 then PosInf else NaN)"
| "js_mul NaN k = NaN"

fun js_div :: "jsnum \<Rightarrow> real \<Rightarrow> jsnum" where
  "js_div (Num a) k =
     (if k \<noteq> 0 then Num (a / k)
      else if a > 0 then PosInf else if a < 0 then NegInf else NaN)"
| "js_div PosInf k = (if k \<ge> 0 then PosInf else NegInf)"
| "js_div NegInf k = (if k \<ge> 0 then NegInf else PosInf)"
| "js_div NaN k = NaN"

fun Math_min :: "jsnum \<Rightarrow> jsnum \<Rightarrow> jsnum" where
  "Math_min NaN _ = NaN"
| "Math_min _ NaN = NaN"
| "Math_min NegInf _ = NegInf"
| "Math_min _ NegInf = NegInf"
| "Math_min PosInf b = b"
| "Math_min a PosInf = a"
| "Math_min (Num a) (Num b) = Num (min a b)"

fun Math_max :: "jsnum \<Rightarrow> jsnum \<Rightarrow> jsnum" where
  "Math_max NaN _ = NaN"
| "Math_max _ NaN = NaN"
| "Math_max PosInf _ = PosInf"
| "Math_max _ PosInf = PosInf"
| "Math_max NegInf b = b"
| "Math_max a NegInf = a"
| "Math_max (Num a) (Num b) = Num (max a b)"

text \<open>Truthiness: \<open>0\<close>, \<open>NaN\<close>, \<open>null\<close> and \<open>undefined\<close> are falsy.\<close>

fun truthy :: "jsval \<Rightarrow> bool" where
  "truthy (Number (Num a)) = (a \<noteq> 0)"
| "truthy (Number NaN) = False"
| "truthy (Number _) = True"
| "truthy _ = False"

text \<open>\<open>v || d\<close> with a number \<open>d\<close>.\<close>

definition or_default :: "jsval \<Rightarrow> jsnum \<Rightarrow> jsnum" where
  "or_default v d = (if truthy v then toNumber v else d)"

section \<open>Strings\<close>

text \<open>
  Strings are lists of ASCII characters. \<open>toLowerCase\<close> maps the letters A to Z,
  \<open>str_includes\<close> is \<open>String.prototype.includes\<close>, and \<open>string_of_nat\<close> is the
  decimal rendering of a non-negative integer inside a template string.
\<close>

definition toLowerChar :: "char \<Rightarrow> char" where
  "toLowerChar c =
     (case map_of (zip ''ABCDEFGHIJKLMNOPQRSTUVWXYZ'' ''abcdefghijklmnopqrstuvwxyz'') c of
        Some l \<Rightarrow> l
      | None \<Rightarrow> c)"

definition toLowerCase :: "string \<Rightarrow> string" where
  "toLowerCase s = map toLowerChar s"

fun startsWith :: "string \<Rightarrow> string \<Rightarrow> bool" where
  "startsWith s [] = True"
| "startsWith [] (c # cs) = False"
| "startsWith (d # ds) (c # cs) = (d = c \<and> startsWith ds cs)"

fun str_includes :: "string \<Rightarrow> string \<Rightarrow> bool" where
  "str_includes [] t = (t = [])"
| "str_includes (c # cs) t = (startsWith (c # cs) t \<or> str_includes cs t)"

definition digit_char :: "nat \<Rightarrow> char" where
  "digit_char d = ''0123456789'' ! d"

fun string_of_nat :: "nat \<Rightarrow> string" where
  "string_of_nat n =
     (if n < 10 then [digit_char n]
      else string_of_nat (n div 10) @ [digit_char (n mod 10)])"

declare string_of_nat.simps [simp del]

section \<open>Board objects\<close>

abbreviation TOOLS_PEN :: string where "TOOLS_PEN \<equiv> ''pen''"
abbreviation TOOLS_RECTANGLE :: string where "TOOLS_RECTANGLE \<equiv> ''rectangle''"
abbreviation TOOLS_CIRCLE :: string where "TOOLS_CIRCLE \<equiv> ''circle''"
abbreviation TOOLS_ARROW :: string where "TOOLS_ARROW \<equiv> ''arrow''"
abbreviation TOOLS_TEXT :: string where "TOOLS_TEXT \<equiv> ''text''"

text \<open>
  The payload \<open>obj.data\<close> is one untyped container shared by all kinds; every property
  the source reads may be missing (\<open>Undefined\<close>, or \<open>None\<close> for a string or an array). \<open>data_closed\<close> is the
  truthiness of \<open>data.closed\<close>.
\<close>

record shape_data =
  data_x :: jsval
  data_y :: jsval
  data_width :: jsval
  data_height :: jsval
  data_radius :: jsval
  data_points :: "jsval list option"
  data_closed :: bool
  data_text :: "string option"
  data_fontSize :: jsval
  data_align :: "string option"
  data_stroke :: "string option"
  data_strokeWidth :: jsval
  data_fill :: "string option"

definition empty_data :: shape_data where
  "empty_data =
     \<lparr>data_x = Undefined, data_y = Undefined, data_width = Undefined, data_height = Undefined,
      data_radius = Undefined, data_points = None, data_closed = False, data_text = None,
      data_fontSize = Undefined, data_align = None, data_stroke = None,
      data_strokeWidth = Undefined, data_fill = None\<rparr>"

record board_object =
  obj_id :: string
  obj_type :: string
  obj_data :: shape_data

section \<open>Geometry\<close>

text \<open>
  The box returned by \<open>getBoundingBox\<close>. The text branch copies \<open>data.x\<close> and
  \<open>data.y\<close> as they are, so a field of the box can be \<open>undefined\<close> or \<open>null\<close>.
\<close>

record box =
  box_x :: jsval
  box_y :: jsval
  box_width :: jsval
  box_height :: jsval

text \<open>\<open>pts[i]\<close> as an argument of \<open>Math.min\<close>: past the end it is \<open>undefined\<close>, hence \<open>NaN\<close>.\<close>

definition pts_at :: "jsval list \<Rightarrow> nat \<Rightarrow> jsnum" where
  "pts_at pts i = (if i < length pts then toNumber (pts ! i) else NaN)"

text \<open>The loop \<open>for (let i = 0; i < pts.length; i += 2)\<close> over the four accumulators.\<close>

function bbox_loop ::
  "jsval list \<Rightarrow> nat \<Rightarrow> jsnum \<times> jsnum \<times> jsnum \<times> jsnum \<Rightarrow> jsnum \<times> jsnum \<times> jsnum \<times> jsnum"
where
  "bbox_loop pts i (minX, maxX, minY, maxY) =
     (if i < length pts then
        bbox_loop pts (i + 2)
          (Math_min minX (pts_at pts i), Math_max maxX (pts_at pts i),
           Math_min minY (pts_at pts (i + 1)), Math_max maxY (pts_at pts (i + 1)))
      else (minX, maxX, minY, maxY))"
  by pat_completeness auto
termination
  by (relation "measure (\<lambda>(pts, i, acc). length pts - i)") auto

declare bbox_loop.simps [simp del]

definition getBoundingBox :: "board_object option \<Rightarrow> box option" where
  "getBoundingBox obj_opt =
     (case obj_opt of
        None \<Rightarrow> None
      | Some obj \<Rightarrow>
          (let d = obj_data obj in
           if obj_type obj = TOOLS_RECTANGLE then
             (let x1 = Math_min (toNumber (data_x d))
                         (js_add (toNumber (data_x d)) (toNumber (data_width d)));
                  y1 = Math_min (toNumber (data_y d))
                         (js_add (toNumber (data_y d)) (toNumber (data_height d)));
                  x2 = Math_max (toNumber (data_x d))
                         (js_add (toNumber (data_x d)) (toNumber (data_width d)));
                  y2 = Math_max (toNumber (data_y d))
                         (js_add (toNumber (data_y d)) (toNumber (data_height d)))
              in Some \<lparr>box_x = Number x1, box_y = Number y1,
                        box_width = Number (js_sub x2 x1), box_height = Number (js_sub y2 y1)\<rparr>)
           else if obj_type obj = TOOLS_CIRCLE then
             (let r = or_default (data_radius d) (Num 0)
              in Some \<lparr>box_x = Number (js_sub (toNumber (data_x d)) r),
                        box_y = Number (js_sub (toNumber (data_y d)) r),
                        box_width = Number (js_mul r 2), box_height = Number (js_mul r 2)\<rparr>)
           else if obj_type obj = TOOLS_PEN \<or> obj_type obj = TOOLS_ARROW then
             (let pts = (case data_points d of Some p \<Rightarrow> p | None \<Rightarrow> [])
              in if length pts < 2 then None
                 else
                   (case bbox_loop pts 0 (PosInf, NegInf, PosInf, NegInf) of
                      (minX, maxX, minY, maxY) \<Rightarrow>
                        Some \<lparr>box_x = Number minX, box_y = Number minY,
                              box_width = Number (js_sub maxX minX),
                              box_height = Number (js_sub maxY minY)\<rparr>))
           else if obj_type obj = TOOLS_TEXT then
             Some \<lparr>box_x = data_x d, box_y = data_y d,
                   box_width = Number (or_default (data_width d) (Num 120)),
                   box_height = Number (or_default (data_fontSize d) (Num 20))\<rparr>
           else None))"

text \<open>
  For the statements about point lists: the abscissas and the ordinates of a flat list of
  coordinate pairs, that is its elements at even and at odd positions.
\<close>

fun xs_of :: "'a list \<Rightarrow> 'a list" where
  "xs_of (x # y # r) = x # xs_of r"
| "xs_of [x] = [x]"
| "xs_of [] = []"

fun ys_of :: "'a list \<Rightarrow> 'a list" where
  "ys_of (x # y # r) = y # ys_of r"
| "ys_of [x] = []"
| "ys_of [] = []"

section \<open>Session state\<close>

text \<open>One \<open>socket.emit('board_update', ...)\<close>.\<close>

record board_update =
  msg_board_id :: string
  msg_objects :: "board_object list"
  msg_version :: int

text \<open>The payload of a received \<open>board_updated\<close>; \<open>None\<close> is a version that is not a number.\<close>

record board_updated =
  ev_objects :: "board_object list"
  ev_version :: "int option"

datatype toast = ToastError string | ToastSuccess string | ToastInfo string

text \<open>
  The state variables of the page that the modelled handlers read or write, and the two
  logs of their effects: the messages emitted on the socket and the toasts shown.
  \<open>socket\<close> is whether the state variable holds a socket (it is \<open>null\<close> initially).
\<close>

record state =
  boardId :: string
  objects :: "board_object list"
  boardVersion :: int
  selectedTool :: string
  selectedId :: "string option"
  history :: "board_object list list"
  historyStep :: nat
  isDrawing :: bool
  currentShape :: "board_object option"
  socket :: bool
  emitted :: "board_update list"
  toasts :: "toast list"

text \<open>
  A handler runs against the values of one render: every read of a state variable sees the
  render's value \<open>r\<close>, every setter writes the pending state \<open>s\<close>.
\<close>

definition on_board_updated :: "board_updated \<Rightarrow> state \<Rightarrow> state" where
  "on_board_updated data s =
     (let s1 = s\<lparr>objects := ev_objects data\<rparr>
      in case ev_version data of
           Some v \<Rightarrow> s1\<lparr>boardVersion := v\<rparr>
         | None \<Rightarrow> s1)"

definition saveToHistory :: "state \<Rightarrow> board_object list \<Rightarrow> state \<Rightarrow> state" where
  "saveToHistory r newObjects s =
     (let newHistory = take (historyStep r + 1) (history r) @ [newObjects]
      in s\<lparr>history := newHistory, historyStep := length newHistory - 1\<rparr>)"

definition broadcastUpdate :: "state \<Rightarrow> board_object list \<Rightarrow> state \<Rightarrow> state" where
  "broadcastUpdate r newObjects s =
     (if socket r then
        (let nextVersion = boardVersion r + 1
         in s\<lparr>boardVersion := nextVersion,
               emitted := emitted s @
                 [\<lparr>msg_board_id = boardId r, msg_objects = newObjects,
                   msg_version = nextVersion\<rparr>]\<rparr>)
      else s)"

definition commitObjects :: "state \<Rightarrow> board_object list \<Rightarrow> state \<Rightarrow> state" where
  "commitObjects r newObjects s =
     broadcastUpdate r newObjects (saveToHistory r newObjects (s\<lparr>objects := newObjects\<rparr>))"

text \<open>
  Undo and redo are called by their buttons only, so the pending state is the render's.
  \<open>history[newStep]\<close> outside the list is \<open>undefined\<close>: the objects become
  \<open>undefined\<close> and the next render fails on \<open>objects.map\<close>.
\<close>

datatype failure = UndefinedObjects

definition handleUndo :: "state \<Rightarrow> failure + state" where
  "handleUndo r =
     (if historyStep r = 0 then Inr r
      else
        (let newStep = historyStep r - 1
         in if newStep < length (history r) then
              (let newObjects = history r ! newStep
               in Inr (broadcastUpdate r newObjects
                         (r\<lparr>historyStep := newStep, objects := newObjects\<rparr>)))
            else Inl UndefinedObjects))"

definition handleRedo :: "state \<Rightarrow> failure + state" where
  "handleRedo r =
     (if int (historyStep r) \<ge> int (length (history r)) - 1 then Inr r
      else
        (let newStep = historyStep r + 1
         in if newStep < length (history r) then
              (let newObjects = history r ! newStep
               in Inr (broadcastUpdate r newObjects
                         (r\<lparr>historyStep := newStep, objects := newObjects\<rparr>)))
            else Inl UndefinedObjects))"

section \<open>Loading and manual editing\<close>

text \<open>
  The success path of \<open>loadBoard\<close>, on the objects and the version of the response,
  each of which may be missing.
\<close>

definition loadBoard :: "board_object list option \<Rightarrow> int option \<Rightarrow> state \<Rightarrow> state" where
  "loadBoard response_objects response_version s =
     (let loaded = (case response_objects of Some objs \<Rightarrow> objs | None \<Rightarrow> [])
      in s\<lparr>objects := loaded,
            boardVersion := (case response_version of
                               Some v \<Rightarrow> if v \<noteq> 0 then v else 0
                             | None \<Rightarrow> 0),
            history := [loaded], historyStep := 0\<rparr>)"

definition handleManualSave :: "state \<Rightarrow> state \<Rightarrow> state" where
  "handleManualSave r s =
     (if \<not> socket r then
        s\<lparr>toasts := toasts s @ [ToastError ''Not connected. Try again in a moment.'']\<rparr>
      else
        (let s1 = broadcastUpdate r (objects r) s
         in s1\<lparr>toasts := toasts s1 @ [ToastSuccess ''Board saved'']\<rparr>))"




text \<open>A string that may be missing is falsy when it is missing or empty.\<close>

fun truthy_string :: "string option \<Rightarrow> bool" where
  "truthy_string None = False"
| "truthy_string (Some i) = (i \<noteq> [])"

definition deleteById :: "state \<Rightarrow> string option \<Rightarrow> state \<Rightarrow> bool \<times> state" where
  "deleteById r targetId s =
     (if \<not> truthy_string targetId then (False, s)
      else
        (let newObjects = filter (\<lambda>obj. Some (obj_id obj) \<noteq> targetId) (objects r);
             s1 = commitObjects r newObjects s
         in (True, s1\<lparr>selectedId := None\<rparr>)))"

definition handleDelete :: "state \<Rightarrow> state \<Rightarrow> state" where
  "handleDelete r s =
     (let targetId =
            (if truthy_string (selectedId r) then selectedId r
             else if objects r \<noteq> [] then Some (obj_id (last (objects r))) else None)
      in snd (deleteById r targetId s))"


section \<open>Applying suggestions\<close>

record suggestion =
  sg_id :: string
  sg_type :: "string option"
  sg_title :: "string option"
  sg_description :: "string option"

definition getPrimaryObject :: "state \<Rightarrow> board_object option" where
  "getPrimaryObject r = (if objects r \<noteq> [] then Some (last (objects r)) else None)"

text \<open>
  In the three appliers \<open>now\<close> is the value of \<open>Date.now()\<close> when an identifier is built;
  \<open>applyFlowExpansion\<close> reads the clock twice.
\<close>

definition applyShapeClean :: "state \<Rightarrow> nat \<Rightarrow> board_object \<Rightarrow> state \<Rightarrow> bool \<times> state" where
  "applyShapeClean r now target s =
     (case getBoundingBox (Some target) of
        None \<Rightarrow> (False, s)
      | Some b \<Rightarrow>
          (let rect = \<lparr>obj_id = ''rect-'' @ string_of_nat now, obj_type = TOOLS_RECTANGLE,
                       obj_data = empty_data
                         \<lparr>data_x := box_x b, data_y := box_y b, data_width := box_width b,
                          data_height := box_height b, data_stroke := Some ''#18181B'',
                          data_strokeWidth := Number (Num 2), data_fill := Some ''transparent''\<rparr>\<rparr>;
               newObjects = filter (\<lambda>ob. obj_id ob \<noteq> obj_id target) (objects r) @ [rect];
               s1 = commitObjects r newObjects s
           in (True, s1\<lparr>selectedId := Some (obj_id rect)\<rparr>)))"

definition applyAnnotation ::
  "state \<Rightarrow> nat \<Rightarrow> board_object \<Rightarrow> suggestion \<Rightarrow> state \<Rightarrow> bool \<times> state"
where
  "applyAnnotation r now target sg s =
     (case getBoundingBox (Some target) of
        None \<Rightarrow> (False, s)
      | Some b \<Rightarrow>
          (let label = (case sg_title sg of
                          Some t \<Rightarrow> if t \<noteq> [] then t else ''Label''
                        | None \<Rightarrow> ''Label'');
               txt = \<lparr>obj_id = ''text-'' @ string_of_nat now, obj_type = TOOLS_TEXT,
                      obj_data = empty_data
                        \<lparr>data_x := Number (js_sub (js_add (toNumber (box_x b))
                                      (js_div (toNumber (box_width b)) 2)) (Num 60)),
                         data_y := Number (js_sub (js_add (toNumber (box_y b))
                                      (js_div (toNumber (box_height b)) 2)) (Num 10)),
                         data_width := Number (Num 120), data_text := Some label,
                         data_fontSize := Number (Num 18), data_align := Some ''center'',
                         data_fill := Some ''#18181B''\<rparr>\<rparr>;
               s1 = commitObjects r (objects r @ [txt]) s
           in (True, s1\<lparr>selectedId := Some (obj_id txt)\<rparr>)))"

definition applyFlowExpansion ::
  "state \<Rightarrow> nat \<Rightarrow> nat \<Rightarrow> board_object \<Rightarrow> state \<Rightarrow> bool \<times> state"
where
  "applyFlowExpansion r now now' target s =
     (case getBoundingBox (Some target) of
        None \<Rightarrow> (False, s)
      | Some b \<Rightarrow>
          (let baseWidth = or_default (box_width b) (Num 140);
               baseHeight = or_default (box_height b) (Num 80);
               newRect_x = js_add (js_add (toNumber (box_x b)) (toNumber (box_width b))) (Num 80);
               newRect = \<lparr>obj_id = ''rect-'' @ string_of_nat now, obj_type = TOOLS_RECTANGLE,
                          obj_data = empty_data
                            \<lparr>data_x := Number newRect_x, data_y := box_y b,
                             data_width := Number baseWidth, data_height := Number baseHeight,
                             data_stroke := Some ''#18181B'', data_strokeWidth := Number (Num 2),
                             data_fill := Some ''transparent''\<rparr>\<rparr>;
               sourceCenter_x = js_add (toNumber (box_x b)) (js_div (toNumber (box_width b)) 2);
               sourceCenter_y = js_add (toNumber (box_y b)) (js_div (toNumber (box_height b)) 2);
               targetCenter_x = js_add newRect_x (js_div baseWidth 2);
               targetCenter_y = js_add (toNumber (box_y b)) (js_div baseHeight 2);
               newArrow = \<lparr>obj_id = ''arrow-'' @ string_of_nat now', obj_type = TOOLS_ARROW,
                           obj_data = empty_data
                             \<lparr>data_points := Some [Number sourceCenter_x, Number sourceCenter_y,
                                                    Number targetCenter_x, Number targetCenter_y],
                              data_stroke := Some ''#18181B'', data_strokeWidth := Number (Num 2),
                              data_fill := Some ''#18181B''\<rparr>\<rparr>;
               s1 = commitObjects r (objects r @ [newRect, newArrow]) s
           in (True, s1\<lparr>selectedId := Some (obj_id newRect)\<rparr>)))"

definition applySuggestion ::
  "state \<Rightarrow> nat \<Rightarrow> nat \<Rightarrow> suggestion \<Rightarrow> state \<Rightarrow> bool \<times> state"
where
  "applySuggestion r now now' sg s =
     (case getPrimaryObject r of
        None \<Rightarrow>
          (False, s\<lparr>toasts := toasts s @
             [ToastError ''Draw something first to apply suggestions'']\<rparr>)
      | Some target \<Rightarrow>
          (let title = toLowerCase (case sg_title sg of Some t \<Rightarrow> t | None \<Rightarrow> [])
           in if sg_type sg = Some ''shape_clean'' then applyShapeClean r now target s
              else if sg_type sg = Some ''annotation'' then applyAnnotation r now target sg s
              else if sg_type sg = Some ''diagram_improvement''
                then applyFlowExpansion r now now' target s
              else if str_includes title ''rectangle'' then applyShapeClean r now target s
              else if str_includes title ''label'' then applyAnnotation r now target sg s
              else if str_includes title ''flow'' then applyFlowExpansion r now now' target s
              else (False, s)))"

section \<open>Interpreting a prompt\<close>

subsection \<open>The regular expressions\<close>

text \<open>
  The character classes \<open>\d\<close>, \<open>\w\<close>, \<open>\s\<close> and the line terminators that \<open>.\<close>
  excludes, on ASCII.
\<close>

definition isDigit :: "char \<Rightarrow> bool" where
  "isDigit c = (c \<in> set ''0123456789'')"

definition isWordChar :: "char \<Rightarrow> bool" where
  "isWordChar c =
     (c \<in> set ''abcdefghijklmnopqrstuvwxyzABCDEFGHIJKLMNOPQRSTUVWXYZ0123456789_'')"

definition isSpace :: "char \<Rightarrow> bool" where
  "isSpace c = (c \<in> set [CHR 0x09, CHR 0x0A, CHR 0x0B, CHR 0x0C, CHR 0x0D, CHR 0x20])"

definition isLineTerminator :: "char \<Rightarrow> bool" where
  "isLineTerminator c = (c \<in> set [CHR 0x0A, CHR 0x0D])"

definition isQuote :: "char \<Rightarrow> bool" where
  "isQuote c = (c \<in> set [CHR 0x22, CHR 0x27])"

text \<open>
  \<open>/(\d+|one|two|three|four|five|six|seven|eight|nine|ten)/\<close>: the leftmost position
  where an alternative matches, the alternatives tried in order, the digits greedily.
\<close>

definition number_words :: "string list" where
  "number_words =
     [''one'', ''two'', ''three'', ''four'', ''five'', ''six'', ''seven'', ''eight'',
      ''nine'', ''ten'']"

definition number_here :: "string \<Rightarrow> string option" where
  "number_here s =
     (if takeWhile isDigit s \<noteq> [] then Some (takeWhile isDigit s)
      else find (startsWith s) number_words)"

fun numberMatch :: "string \<Rightarrow> string option" where
  "numberMatch [] = None"
| "numberMatch (c # cs) =
     (case number_here (c # cs) of Some m \<Rightarrow> Some m | None \<Rightarrow> numberMatch cs)"

definition quantityMap :: "(string \<times> nat) list" where
  "quantityMap =
     [(''one'', 1), (''two'', 2), (''three'', 3), (''four'', 4), (''five'', 5),
      (''six'', 6), (''seven'', 7), (''eight'', 8), (''nine'', 9), (''ten'', 10)]"

definition digit_value :: "char \<Rightarrow> nat" where
  "digit_value c =
     (case map_of (zip ''0123456789'' [0, 1, 2, 3, 4, 5, 6, 7, 8, 9]) c of
        Some d \<Rightarrow> d
      | None \<Rightarrow> 0)"

text \<open>
  \<open>parseInt\<close> on the strings the expression above yields: the leading decimal digits, and
  \<open>NaN\<close> (\<open>None\<close>) when there is none. The result is exact, however long the digits.
\<close>

definition parseInt :: "string \<Rightarrow> nat option" where
  "parseInt s =
     (if takeWhile isDigit s = [] then None
      else Some (foldl (\<lambda>acc c. 10 * acc + digit_value c) 0 (takeWhile isDigit s)))"

fun truthy_nat :: "nat option \<Rightarrow> bool" where
  "truthy_nat None = False"
| "truthy_nat (Some n) = (n \<noteq> 0)"

definition prompt_quantity :: "string \<Rightarrow> nat" where
  "prompt_quantity lowerPrompt =
     (case numberMatch lowerPrompt of
        None \<Rightarrow> 1
      | Some num \<Rightarrow>
          if truthy_nat (map_of quantityMap num) then the (map_of quantityMap num)
          else if truthy_nat (parseInt num) then the (parseInt num)
          else 1)"

text \<open>
  \<open>/(?:make|create|draw|add)\s+(?:a\s+)?(\w+)/\<close> and its first group. After the verb the
  white space is taken greedily; the optional \<open>a\<close> with its white space is taken when a word
  follows it, and otherwise the word starts at that \<open>a\<close>.
\<close>

definition after_verb :: "string \<Rightarrow> string option" where
  "after_verb s =
     (if takeWhile isSpace s = [] then None
      else
        (case dropWhile isSpace s of
           [] \<Rightarrow> None
         | c # r \<Rightarrow>
             if c = CHR ''a'' \<and> takeWhile isSpace r \<noteq> []
                \<and> takeWhile isWordChar (dropWhile isSpace r) \<noteq> []
             then Some (takeWhile isWordChar (dropWhile isSpace r))
             else if isWordChar c then Some (takeWhile isWordChar (c # r))
             else None))"

fun verb_here :: "string list \<Rightarrow> string \<Rightarrow> string option" where
  "verb_here [] s = None"
| "verb_here (v # vs) s =
     (if startsWith s v then
        (case after_verb (drop (length v) s) of
           Some w \<Rightarrow> Some w
         | None \<Rightarrow> verb_here vs s)
      else verb_here vs s)"

fun shapeToCreate :: "string \<Rightarrow> string option" where
  "shapeToCreate [] = None"
| "shapeToCreate (c # cs) =
     (case verb_here [''make'', ''create'', ''draw'', ''add''] (c # cs) of
        Some w \<Rightarrow> Some w
      | None \<Rightarrow> shapeToCreate cs)"

text \<open>
  \<open>/["'](.+?)["']|text:\s*(.+?)(?:\s|$)|label:\s*(.+?)(?:\s|$)/i\<close> and the group that
  matched. The lazy group after a quote takes one character and then stops at the first
  quote; after a prefix it stops at the first white space or at the end, and when only
  white space follows the prefix the greedy \<open>\s*\<close> gives back its last character that is
  not a line terminator.
\<close>

fun until_quote :: "string \<Rightarrow> string \<Rightarrow> string option" where
  "until_quote acc [] = None"
| "until_quote acc (c # cs) =
     (if isQuote c then Some (rev acc)
      else if isLineTerminator c then None
      else until_quote (c # acc) cs)"

definition quoted_here :: "string \<Rightarrow> string option" where
  "quoted_here s =
     (case s of
        q # c # cs \<Rightarrow>
          if isQuote q \<and> \<not> isLineTerminator c then until_quote [c] cs else None
      | _ \<Rightarrow> None)"

definition after_prefix :: "string \<Rightarrow> string option" where
  "after_prefix s =
     (if dropWhile isSpace s \<noteq> [] then
        Some (takeWhile (\<lambda>c. \<not> isSpace c) (dropWhile isSpace s))
      else
        (case find (\<lambda>c. \<not> isLineTerminator c) (rev (takeWhile isSpace s)) of
           Some c \<Rightarrow> Some [c]
         | None \<Rightarrow> None))"

definition prefixed_here :: "string \<Rightarrow> string \<Rightarrow> string option" where
  "prefixed_here prefix s =
     (if toLowerCase (take (length prefix) s) = prefix
      then after_prefix (drop (length prefix) s) else None)"

definition text_here :: "string \<Rightarrow> string option" where
  "text_here s =
     (case quoted_here s of
        Some t \<Rightarrow> Some t
      | None \<Rightarrow>
          (case prefixed_here ''text:'' s of
             Some t \<Rightarrow> Some t
           | None \<Rightarrow> prefixed_here ''label:'' s))"

fun textMatch :: "string \<Rightarrow> string option" where
  "textMatch [] = None"
| "textMatch (c # cs) =
     (case text_here (c # cs) of Some t \<Rightarrow> Some t | None \<Rightarrow> textMatch cs)"

subsection \<open>The reference object and the centre\<close>

record viewport =
  innerWidth :: real
  innerHeight :: real

definition baseSize :: real where
  "baseSize = 150"

definition spacing :: real where
  "spacing = 50"

text \<open>\<open>[...objects].reverse().find(p)\<close> for the three kinds a prompt can name.\<close>

definition find_triangle :: "board_object list \<Rightarrow> board_object option" where
  "find_triangle objs =
     find (\<lambda>obj. obj_type obj = TOOLS_PEN \<and> data_closed (obj_data obj)) (rev objs)"

definition find_type :: "string \<Rightarrow> board_object list \<Rightarrow> board_object option" where
  "find_type t objs = find (\<lambda>obj. obj_type obj = t) (rev objs)"

text \<open>
  The reference of the branches for below and above: by the kind found in the prompt, and
  the last object when that gave nothing and there are objects.
\<close>

definition kind_reference :: "string \<Rightarrow> board_object list \<Rightarrow> board_object option" where
  "kind_reference lowerPrompt objs =
     (if str_includes lowerPrompt ''triangle'' then find_triangle objs
      else if str_includes lowerPrompt ''circle'' then find_type TOOLS_CIRCLE objs
      else if str_includes lowerPrompt ''rectangle'' \<or> str_includes lowerPrompt ''square''
        then find_type TOOLS_RECTANGLE objs
      else None)"

definition reference_or_last :: "string \<Rightarrow> board_object list \<Rightarrow> board_object option" where
  "reference_or_last lowerPrompt objs =
     (case kind_reference lowerPrompt objs of
        Some obj \<Rightarrow> Some obj
      | None \<Rightarrow> if objs \<noteq> [] then Some (last objs) else None)"

text \<open>\<open>points.filter((_, i) => i % 2 === k)\<close>, \<open>Math.max(...xs)\<close>, \<open>Math.min(...xs)\<close>.\<close>

definition at_parity :: "nat \<Rightarrow> 'a list \<Rightarrow> 'a list" where
  "at_parity k xs = map snd (filter (\<lambda>(i, v). i mod 2 = k) (zip [0..<length xs] xs))"

definition Math_max_list :: "jsval list \<Rightarrow> jsnum" where
  "Math_max_list xs = foldl (\<lambda>m v. Math_max m (toNumber v)) NegInf xs"

definition Math_min_list :: "jsval list \<Rightarrow> jsnum" where
  "Math_min_list xs = foldl (\<lambda>m v. Math_min m (toNumber v)) PosInf xs"

definition avgX :: "jsval list \<Rightarrow> jsnum" where
  "avgX points =
     js_div (foldl (\<lambda>a b. js_add a (toNumber b)) (Num 0) (at_parity 0 points))
            (real (length points) / 2)"

text \<open>
  The centre is a pair of values: the circle branches copy \<open>data.x\<close> or \<open>data.y\<close> as they
  are. Each function is the chain of tests on the kind of the reference in one direction,
  and returns the centre \<open>c\<close> it was given when no test applies.
\<close>

type_synonym center = "jsval \<times> jsval"

definition center_below :: "board_object \<Rightarrow> center \<Rightarrow> center" where
  "center_below ref c =
     (let d = obj_data ref in
      if obj_type ref = TOOLS_CIRCLE then
        (data_x d,
         Number (js_add (js_add (js_add (toNumber (data_y d)) (toNumber (data_radius d)))
                   (Num (baseSize / 2))) (Num spacing)))
      else if obj_type ref = TOOLS_RECTANGLE then
        (Number (js_add (toNumber (data_x d)) (js_div (toNumber (data_width d)) 2)),
         Number (js_add (js_add (js_add (toNumber (data_y d)) (toNumber (data_height d)))
                   (Num (baseSize / 2))) (Num spacing)))
      else
        (case data_points d of
           Some points \<Rightarrow>
             if obj_type ref = TOOLS_PEN then
               (Number (avgX points),
                Number (js_add (js_add (Math_max_list (at_parity 1 points))
                          (Num (baseSize / 2))) (Num spacing)))
             else c
         | None \<Rightarrow> c))"

definition center_above :: "board_object \<Rightarrow> center \<Rightarrow> center" where
  "center_above ref c =
     (let d = obj_data ref in
      if obj_type ref = TOOLS_CIRCLE then
        (data_x d,
         Number (js_sub (js_sub (js_sub (toNumber (data_y d)) (toNumber (data_radius d)))
                   (Num (baseSize / 2))) (Num spacing)))
      else if obj_type ref = TOOLS_RECTANGLE then
        (Number (js_add (toNumber (data_x d)) (js_div (toNumber (data_width d)) 2)),
         Number (js_sub (js_sub (toNumber (data_y d)) (Num (baseSize / 2))) (Num spacing)))
      else
        (case data_points d of
           Some points \<Rightarrow>
             if obj_type ref = TOOLS_PEN then
               (Number (avgX points),
                Number (js_sub (js_sub (Math_min_list (at_parity 1 points))
                          (Num (baseSize / 2))) (Num spacing)))
             else c
         | None \<Rightarrow> c))"

definition center_right :: "board_object \<Rightarrow> center \<Rightarrow> center" where
  "center_right ref c =
     (let d = obj_data ref in
      if obj_type ref = TOOLS_CIRCLE then
        (Number (js_add (js_add (js_add (toNumber (data_x d)) (toNumber (data_radius d)))
                   (Num (baseSize / 2))) (Num spacing)),
         data_y d)
      else if obj_type ref = TOOLS_RECTANGLE then
        (Number (js_add (js_add (js_add (toNumber (data_x d)) (toNumber (data_width d)))
                   (Num (baseSize / 2))) (Num spacing)),
         Number (js_add (toNumber (data_y d)) (js_div (toNumber (data_height d)) 2)))
      else c)"

definition center_left :: "board_object \<Rightarrow> center \<Rightarrow> center" where
  "center_left ref c =
     (let d = obj_data ref in
      if obj_type ref = TOOLS_CIRCLE then
        (Number (js_sub (js_sub (js_sub (toNumber (data_x d)) (toNumber (data_radius d)))
                   (Num (baseSize / 2))) (Num spacing)),
         data_y d)
      else if obj_type ref = TOOLS_RECTANGLE then
        (Number (js_sub (js_sub (toNumber (data_x d)) (Num (baseSize / 2))) (Num spacing)),
         Number (js_add (toNumber (data_y d)) (js_div (toNumber (data_height d)) 2)))
      else c)"

definition viewport_center :: "viewport \<Rightarrow> center" where
  "viewport_center vp =
     (Number (Num (innerWidth vp / 2)), Number (Num ((innerHeight vp - 120) / 2)))"

text \<open>
  The part of \<open>createShapeFromPrompt\<close> headed "Parse spatial relationships": the final
  values of \<open>referenceObj\<close> and of \<open>(centerX, centerY)\<close>.
\<close>

definition prompt_placement ::
  "viewport \<Rightarrow> string \<Rightarrow> board_object list \<Rightarrow> board_object option \<times> center"
where
  "prompt_placement vp lowerPrompt objs =
     (if str_includes lowerPrompt ''below'' \<or> str_includes lowerPrompt ''under''
         \<or> str_includes lowerPrompt ''beneath'' then
        (case reference_or_last lowerPrompt objs of
           Some ref \<Rightarrow> (Some ref, center_below ref (viewport_center vp))
         | None \<Rightarrow> (None, viewport_center vp))
      else if str_includes lowerPrompt ''above'' \<or> str_includes lowerPrompt ''over'' then
        (case reference_or_last lowerPrompt objs of
           Some ref \<Rightarrow> (Some ref, center_above ref (viewport_center vp))
         | None \<Rightarrow> (None, viewport_center vp))
      else if str_includes lowerPrompt ''right'' \<or> str_includes lowerPrompt ''beside'' then
        (if objs \<noteq> [] then (Some (last objs), center_right (last objs) (viewport_center vp))
         else (None, viewport_center vp))
      else if str_includes lowerPrompt ''left'' then
        (if objs \<noteq> [] then (Some (last objs), center_left (last objs) (viewport_center vp))
         else (None, viewport_center vp))
      else (None, viewport_center vp))"

subsection \<open>The new shape and its copies\<close>

text \<open>
  The five shapes, built around the centre \<open>(centerX, centerY)\<close>; \<open>now\<close> is the value
  of \<open>Date.now()\<close> in the identifier.
\<close>

definition triangle_shape :: "nat \<Rightarrow> center \<Rightarrow> board_object" where
  "triangle_shape now c =
     (let centerX = fst c; centerY = snd c; height = baseSize; width = baseSize in
      \<lparr>obj_id = ''shape-'' @ string_of_nat now, obj_type = TOOLS_PEN,
       obj_data = empty_data
         \<lparr>data_points := Some
            [centerX, Number (js_sub (toNumber centerY) (Num (height / 2))),
             Number (js_sub (toNumber centerX) (Num (width / 2))),
             Number (js_add (toNumber centerY) (Num (height / 2))),
             Number (js_add (toNumber centerX) (Num (width / 2))),
             Number (js_add (toNumber centerY) (Num (height / 2))),
             centerX, Number (js_sub (toNumber centerY) (Num (height / 2)))],
          data_closed := True, data_stroke := Some ''#18181B'',
          data_strokeWidth := Number (Num 2)\<rparr>\<rparr>)"

definition circle_shape :: "nat \<Rightarrow> center \<Rightarrow> board_object" where
  "circle_shape now c =
     \<lparr>obj_id = ''shape-'' @ string_of_nat now, obj_type = TOOLS_CIRCLE,
      obj_data = empty_data
        \<lparr>data_x := fst c, data_y := snd c, data_radius := Number (Num (baseSize / 2)),
         data_stroke := Some ''#18181B'', data_strokeWidth := Number (Num 2)\<rparr>\<rparr>"

definition rectangle_shape :: "nat \<Rightarrow> center \<Rightarrow> board_object" where
  "rectangle_shape now c =
     \<lparr>obj_id = ''shape-'' @ string_of_nat now, obj_type = TOOLS_RECTANGLE,
      obj_data = empty_data
        \<lparr>data_x := Number (js_sub (toNumber (fst c)) (Num (baseSize / 2))),
         data_y := Number (js_sub (toNumber (snd c)) (Num (baseSize / 2))),
         data_width := Number (Num baseSize), data_height := Number (Num baseSize),
         data_stroke := Some ''#18181B'', data_strokeWidth := Number (Num 2)\<rparr>\<rparr>"

definition arrow_shape :: "nat \<Rightarrow> center \<Rightarrow> board_object" where
  "arrow_shape now c =
     \<lparr>obj_id = ''shape-'' @ string_of_nat now, obj_type = TOOLS_ARROW,
      obj_data = empty_data
        \<lparr>data_points := Some
           [Number (js_sub (toNumber (fst c)) (Num 100)), snd c,
            Number (js_add (toNumber (fst c)) (Num 100)), snd c],
         data_stroke := Some ''#18181B'', data_strokeWidth := Number (Num 2),
         data_fill := Some ''#18181B''\<rparr>\<rparr>"

definition text_shape :: "nat \<Rightarrow> center \<Rightarrow> string \<Rightarrow> board_object" where
  "text_shape now c textContent =
     \<lparr>obj_id = ''shape-'' @ string_of_nat now, obj_type = TOOLS_TEXT,
      obj_data = empty_data
        \<lparr>data_x := Number (js_sub (toNumber (fst c)) (Num 50)),
         data_y := Number (js_sub (toNumber (snd c)) (Num 20)),
         data_text := Some textContent, data_fontSize := Number (Num 24),
         data_fill := Some ''#18181B''\<rparr>\<rparr>"

text \<open>The part of \<open>createShapeFromPrompt\<close> headed "Detect what shape to create".\<close>

definition prompt_newShape :: "nat \<Rightarrow> string \<Rightarrow> string \<Rightarrow> center \<Rightarrow> board_object option" where
  "prompt_newShape now prompt lowerPrompt c =
     (let w = shapeToCreate lowerPrompt in
      if w = Some ''triangle'' \<or> (w = None \<and> str_includes lowerPrompt ''triangle'') then
        Some (triangle_shape now c)
      else if w = Some ''circle'' \<or> (w = None \<and> str_includes lowerPrompt ''circle'') then
        Some (circle_shape now c)
      else if w = Some ''rectangle'' \<or> w = Some ''square''
              \<or> (w = None \<and> (str_includes lowerPrompt ''rectangle''
                                \<or> str_includes lowerPrompt ''square'')) then
        Some (rectangle_shape now c)
      else if w = Some ''arrow'' \<or> (w = None \<and> str_includes lowerPrompt ''arrow'') then
        Some (arrow_shape now c)
      else if w = Some ''text'' \<or> w = Some ''label''
              \<or> (w = None \<and> (str_includes lowerPrompt ''text''
                                \<or> str_includes lowerPrompt ''label'')) then
        Some (text_shape now c (case textMatch prompt of Some t \<Rightarrow> t | None \<Rightarrow> ''Text''))
      else None)"

text \<open>
  \<open>JSON.parse(JSON.stringify(shape))\<close>: a property that is \<open>undefined\<close> is dropped, a
  number that is not finite becomes \<open>null\<close>, and so does an \<open>undefined\<close> array element.
\<close>

fun json_property :: "jsval \<Rightarrow> jsval" where
  "json_property (Number (Num a)) = Number (Num a)"
| "json_property (Number _) = Null"
| "json_property Null = Null"
| "json_property Undefined = Undefined"

fun json_element :: "jsval \<Rightarrow> jsval" where
  "json_element Undefined = Null"
| "json_element v = json_property v"

definition JSON_clone :: "board_object \<Rightarrow> board_object" where
  "JSON_clone obj =
     (let d = obj_data obj in
      obj\<lparr>obj_data := d
        \<lparr>data_x := json_property (data_x d), data_y := json_property (data_y d),
         data_width := json_property (data_width d),
         data_height := json_property (data_height d),
         data_radius := json_property (data_radius d),
         data_points := map_option (map json_element) (data_points d),
         data_fontSize := json_property (data_fontSize d),
         data_strokeWidth := json_property (data_strokeWidth d)\<rparr>\<rparr>)"

text \<open>The horizontal offset of copy \<open>i\<close> in a row of \<open>quantity\<close> copies.\<close>

definition row_offset :: "nat \<Rightarrow> nat \<Rightarrow> real" where
  "row_offset quantity i =
     (if quantity > 1 then
        (let totalWidth = (baseSize + spacing) * real quantity - spacing
         in real i * (baseSize + spacing) - totalWidth / 2 + baseSize / 2)
      else 0)"

definition plus_offset :: "jsval \<Rightarrow> real \<Rightarrow> jsval" where
  "plus_offset v k = Number (js_add (toNumber v) (Num k))"

text \<open>
  One pass of the loop of \<open>createShapeFromPrompt\<close>. The arrow branch maps over
  \<open>data.points\<close> without testing it; the shapes built above always have it.
\<close>

definition prompt_instance :: "board_object \<Rightarrow> nat \<Rightarrow> nat \<Rightarrow> nat \<Rightarrow> board_object" where
  "prompt_instance newShape quantity i now =
     (let offsetX = row_offset quantity i; offsetY = 0;
          shapeInstance = (JSON_clone newShape)
            \<lparr>obj_id := ''shape-'' @ string_of_nat now @ ''-'' @ string_of_nat i\<rparr>;
          d = obj_data shapeInstance;
          moved = d\<lparr>data_x := plus_offset (data_x d) offsetX, data_y := plus_offset (data_y d) offsetY\<rparr>;
          mapped = d\<lparr>data_points := map_option
                      (\<lambda>pts. map (\<lambda>(idx, val). if idx mod 2 = 0 then plus_offset val offsetX
                                                 else plus_offset val offsetY)
                                 (zip [0..<length pts] pts))
                      (data_points d)\<rparr>
      in if obj_type shapeInstance = TOOLS_CIRCLE then shapeInstance\<lparr>obj_data := moved\<rparr>
         else if obj_type shapeInstance = TOOLS_RECTANGLE then shapeInstance\<lparr>obj_data := moved\<rparr>
         else if obj_type shapeInstance = TOOLS_PEN \<and> data_points d \<noteq> None
           then shapeInstance\<lparr>obj_data := mapped\<rparr>
         else if obj_type shapeInstance = TOOLS_ARROW then shapeInstance\<lparr>obj_data := mapped\<rparr>
         else if obj_type shapeInstance = TOOLS_TEXT then shapeInstance\<lparr>obj_data := moved\<rparr>
         else shapeInstance)"

text \<open>
  \<open>createShapeFromPrompt\<close>. \<open>clock k\<close> is the value of the \<open>k\<close>-th reading of
  \<open>Date.now()\<close>: reading \<open>0\<close> names the new shape, reading \<open>i + 1\<close> its copy \<open>i\<close>.
\<close>

definition createShapeFromPrompt ::
  "state \<Rightarrow> viewport \<Rightarrow> (nat \<Rightarrow> nat) \<Rightarrow> string \<Rightarrow> state \<Rightarrow> bool \<times> state"
where
  "createShapeFromPrompt r vp clock prompt s =
     (let lowerPrompt = toLowerCase prompt;
          quantity = prompt_quantity lowerPrompt;
          c = snd (prompt_placement vp lowerPrompt (objects r))
      in case prompt_newShape (clock 0) prompt lowerPrompt c of
           None \<Rightarrow> (False, s)
         | Some newShape \<Rightarrow>
             (let shapesToCreate =
                    map (\<lambda>i. prompt_instance newShape quantity i (clock (i + 1))) [0..<quantity];
                  newObjects = objects r @ shapesToCreate;
                  s1 = commitObjects r newObjects s;
                  s2 = s1\<lparr>selectedId := Some (obj_id (last shapesToCreate))\<rparr>
              in (True,
                  s2\<lparr>toasts := toasts s2 @
                    [ToastSuccess (string_of_nat quantity @ '' shape''
                       @ (if quantity > 1 then ''s'' else []) @ '' created!'')]\<rparr>)))"

subsection \<open>Structured commands\<close>

record shape_command =
  cmd_shape_type :: "string option"
  cmd_quantity :: "nat option"
  cmd_position :: "string option"
  cmd_reference :: "string option"
  cmd_text_content :: "string option"

text \<open>The part of \<open>executeShapeCommand\<close> headed "Calculate position based on reference".\<close>

definition command_reference :: "shape_command \<Rightarrow> board_object list \<Rightarrow> board_object option" where
  "command_reference command objs =
     (if cmd_reference command = Some ''last'' \<or> \<not> truthy_string (cmd_reference command) then
        (if objs \<noteq> [] then Some (last objs) else None)
      else if cmd_reference command = Some ''triangle'' then find_triangle objs
      else if cmd_reference command = Some ''circle'' then find_type TOOLS_CIRCLE objs
      else if cmd_reference command = Some ''rectangle''
              \<or> cmd_reference command = Some ''square'' then find_type TOOLS_RECTANGLE objs
      else None)"

definition command_center :: "viewport \<Rightarrow> shape_command \<Rightarrow> board_object list \<Rightarrow> center" where
  "command_center vp command objs =
     (if truthy_string (cmd_position command) \<and> cmd_position command \<noteq> Some ''center'' then
        (case command_reference command objs of
           None \<Rightarrow> viewport_center vp
         | Some ref \<Rightarrow>
             if cmd_position command = Some ''below'' then center_below ref (viewport_center vp)
             else if cmd_position command = Some ''above''
               then center_above ref (viewport_center vp)
             else if cmd_position command = Some ''right''
               then center_right ref (viewport_center vp)
             else if cmd_position command = Some ''left''
               then center_left ref (viewport_center vp)
             else viewport_center vp)
      else viewport_center vp)"

definition command_baseShape :: "nat \<Rightarrow> shape_command \<Rightarrow> center \<Rightarrow> board_object option" where
  "command_baseShape now command c =
     (if cmd_shape_type command = Some ''triangle'' then Some (triangle_shape now c)
      else if cmd_shape_type command = Some ''circle'' then Some (circle_shape now c)
      else if cmd_shape_type command = Some ''rectangle''
              \<or> cmd_shape_type command = Some ''square'' then Some (rectangle_shape now c)
      else if cmd_shape_type command = Some ''arrow'' then Some (arrow_shape now c)
      else if cmd_shape_type command = Some ''text'' then
        Some (text_shape now c
          (if truthy_string (cmd_text_content command) then the (cmd_text_content command)
           else ''Text''))
      else None)"

text \<open>One pass of the loop of \<open>executeShapeCommand\<close>: only the abscissas move.\<close>

definition command_instance :: "board_object \<Rightarrow> nat \<Rightarrow> nat \<Rightarrow> nat \<Rightarrow> board_object" where
  "command_instance baseShape quantity i now =
     (let offsetX = row_offset quantity i;
          shapeInstance = (JSON_clone baseShape)
            \<lparr>obj_id := ''shape-'' @ string_of_nat now @ ''-'' @ string_of_nat i\<rparr>;
          d = obj_data shapeInstance;
          moved = d\<lparr>data_x := plus_offset (data_x d) offsetX\<rparr>;
          mapped = d\<lparr>data_points := map_option
                      (\<lambda>pts. map (\<lambda>(idx, val). if idx mod 2 = 0 then plus_offset val offsetX else val)
                                 (zip [0..<length pts] pts))
                      (data_points d)\<rparr>
      in if obj_type shapeInstance = TOOLS_CIRCLE then shapeInstance\<lparr>obj_data := moved\<rparr>
         else if obj_type shapeInstance = TOOLS_RECTANGLE then shapeInstance\<lparr>obj_data := moved\<rparr>
         else if obj_type shapeInstance = TOOLS_PEN \<and> data_points d \<noteq> None
           then shapeInstance\<lparr>obj_data := mapped\<rparr>
         else if obj_type shapeInstance = TOOLS_ARROW then shapeInstance\<lparr>obj_data := mapped\<rparr>
         else if obj_type shapeInstance = TOOLS_TEXT then shapeInstance\<lparr>obj_data := moved\<rparr>
         else shapeInstance)"

text \<open>
  \<open>executeShapeCommand\<close>, for a command whose quantity, when present, is a natural
  number; \<open>command.quantity || 1\<close> makes it at least one.
\<close>

definition executeShapeCommand ::
  "state \<Rightarrow> viewport \<Rightarrow> (nat \<Rightarrow> nat) \<Rightarrow> shape_command \<Rightarrow> state \<Rightarrow> bool \<times> state"
where
  "executeShapeCommand r vp clock command s =
     (case command_baseShape (clock 0) command (command_center vp command (objects r)) of
        None \<Rightarrow> (False, s)
      | Some baseShape \<Rightarrow>
          (let quantity = (if truthy_nat (cmd_quantity command)
                           then the (cmd_quantity command) else 1);
               shapesToCreate =
                 map (\<lambda>i. command_instance baseShape quantity i (clock (i + 1))) [0..<quantity];
               newObjects = objects r @ shapesToCreate;
               s1 = commitObjects r newObjects s
           in (True, s1\<lparr>selectedId := Some (obj_id (last shapesToCreate))\<rparr>)))"

text \<open>
  The loop of \<open>handleCustomPrompt\<close> over the commands of the response, counting the
  shapes created, and the toast that follows it. The loop runs after the request was
  awaited, and every pass runs in the render \<open>r\<close> in which the prompt was submitted;
  \<open>clocks j\<close> is the clock of pass \<open>j\<close>.
\<close>

fun executeShapeCommands ::
  "state \<Rightarrow> viewport \<Rightarrow> (nat \<Rightarrow> nat \<Rightarrow> nat) \<Rightarrow> nat \<Rightarrow> shape_command list \<Rightarrow> state
     \<Rightarrow> nat \<times> state"
where
  "executeShapeCommands r vp clocks j [] s = (0, s)"
| "executeShapeCommands r vp clocks j (command # results) s =
     (case executeShapeCommand r vp (clocks j) command s of
        (created, s1) \<Rightarrow>
          (case executeShapeCommands r vp clocks (Suc j) results s1 of
             (shapesCreated, s2) \<Rightarrow>
               (if created then Suc shapesCreated else shapesCreated, s2)))"

definition handleCustomPrompt_commands ::
  "state \<Rightarrow> viewport \<Rightarrow> (nat \<Rightarrow> nat \<Rightarrow> nat) \<Rightarrow> shape_command list \<Rightarrow> state \<Rightarrow> state"
where
  "handleCustomPrompt_commands r vp clocks results s =
     (case executeShapeCommands r vp clocks 0 results s of
        (shapesCreated, s1) \<Rightarrow>
          s1\<lparr>toasts := toasts s1 @
            [if shapesCreated > 0 then
               ToastSuccess (string_of_nat shapesCreated @ '' shape''
                 @ (if shapesCreated > 1 then ''s'' else []) @ '' created!'')
             else ToastError ''Could not create shapes from your request'']\<rparr>)"

section \<open>What a commit leaves\<close>


section \<open>Example data\<close>

text \<open>Objects as the drawing tools create them, and a session state to run the handlers on.\<close>

definition rectangle_object :: "string \<Rightarrow> real \<Rightarrow> real \<Rightarrow> real \<Rightarrow> real \<Rightarrow> board_object" where
  "rectangle_object i x y w h =
     \<lparr>obj_id = i, obj_type = TOOLS_RECTANGLE,
      obj_data = empty_data\<lparr>data_x := Number (Num x), data_y := Number (Num y),
        data_width := Number (Num w), data_height := Number (Num h),
        data_stroke := Some ''#18181B'', data_strokeWidth := Number (Num 2),
        data_fill := Some ''transparent''\<rparr>\<rparr>"

definition circle_object :: "string \<Rightarrow> real \<Rightarrow> real \<Rightarrow> real \<Rightarrow> board_object" where
  "circle_object i x y r =
     \<lparr>obj_id = i, obj_type = TOOLS_CIRCLE,
      obj_data = empty_data\<lparr>data_x := Number (Num x), data_y := Number (Num y),
        data_radius := Number (Num r),
        data_stroke := Some ''#18181B'', data_strokeWidth := Number (Num 2),
        data_fill := Some ''transparent''\<rparr>\<rparr>"

definition pen_object :: "string \<Rightarrow> real list \<Rightarrow> board_object" where
  "pen_object i pts =
     \<lparr>obj_id = i, obj_type = TOOLS_PEN,
      obj_data = empty_data\<lparr>data_points := Some (map (\<lambda>v. Number (Num v)) pts),
        data_stroke := Some ''#18181B'', data_strokeWidth := Number (Num 2)\<rparr>\<rparr>"

definition session :: "board_object list list \<Rightarrow> nat \<Rightarrow> int \<Rightarrow> bool \<Rightarrow> state" where
  "session h k v sock =
     \<lparr>boardId = ''board-1'', objects = (if k < length h then h ! k else []),
      boardVersion = v, selectedTool = TOOLS_PEN, selectedId = None,
      history = h, historyStep = k, isDrawing = False, currentShape = None,
      socket = sock, emitted = [], toasts = []\<rparr>"


section \<open>Remote updates\<close>

text \<open>
  C1. A received \<open>board_updated\<close> carrying an objects list and a numeric version replaces
  the client's objects with exactly the received objects and sets the client's version to
  the received version, whatever the client's objects and version were before.
\<close>

theorem board_updated_overwrites:
  assumes "ev_version data = Some v"
  shows "objects (on_board_updated data s) = ev_objects data
       \<and> boardVersion (on_board_updated data s) = v"
  using assms by (simp add: on_board_updated_def)

theorem board_updated_overwrites_witness:
  "objects (on_board_updated
      \<lparr>ev_objects = [rectangle_object ''a'' 0 0 10 10, circle_object ''b'' 5 5 2,
                      pen_object ''c'' [0, 0, 4, 4]], ev_version = Some 5\<rparr>
      (session [[], [circle_object ''z'' 1 1 1]] 1 9 True))
     = [rectangle_object ''a'' 0 0 10 10, circle_object ''b'' 5 5 2, pen_object ''c'' [0, 0, 4, 4]]
   \<and> boardVersion (on_board_updated
      \<lparr>ev_objects = [rectangle_object ''a'' 0 0 10 10, circle_object ''b'' 5 5 2,
                      pen_object ''c'' [0, 0, 4, 4]], ev_version = Some 5\<rparr>
      (session [[], [circle_object ''z'' 1 1 1]] 1 9 True)) = 5"
  using board_updated_overwrites
    [of "\<lparr>ev_objects = [rectangle_object ''a'' 0 0 10 10, circle_object ''b'' 5 5 2,
                      pen_object ''c'' [0, 0, 4, 4]], ev_version = Some 5\<rparr>" 5
        "session [[], [circle_object ''z'' 1 1 1]] 1 9 True"]
  by simp

text \<open>
  C10. A received \<open>board_updated\<close> leaves the local undo/redo history, the snapshot list
  and the cursor, unchanged: it replaces the objects and the version and nothing else, so a
  remote update never becomes an undoable local step.
\<close>

theorem board_updated_keeps_history:
  "history (on_board_updated data s) = history s
   \<and> historyStep (on_board_updated data s) = historyStep s
   \<and> on_board_updated data s =
       s\<lparr>objects := objects (on_board_updated data s),
          boardVersion := boardVersion (on_board_updated data s)\<rparr>"
  by (cases "ev_version data") (simp_all add: on_board_updated_def)

section \<open>Effects of a commit\<close>

lemma broadcastUpdate_frame:
  "history (broadcastUpdate r newObjects s) = history s"
  "historyStep (broadcastUpdate r newObjects s) = historyStep s"
  "objects (broadcastUpdate r newObjects s) = objects s"
  "socket (broadcastUpdate r newObjects s) = socket s"
  "boardId (broadcastUpdate r newObjects s) = boardId s"
  "selectedId (broadcastUpdate r newObjects s) = selectedId s"
  "toasts (broadcastUpdate r newObjects s) = toasts s"
  by (simp_all add: broadcastUpdate_def Let_def)

lemma broadcastUpdate_version:
  "boardVersion (broadcastUpdate r newObjects s) =
     (if socket r then boardVersion r + 1 else boardVersion s)"
  by (simp add: broadcastUpdate_def Let_def)


lemma saveToHistory_frame:
  "history (saveToHistory r newObjects s) = take (historyStep r + 1) (history r) @ [newObjects]"
  "historyStep (saveToHistory r newObjects s) = length (take (historyStep r + 1) (history r))"
  "objects (saveToHistory r newObjects s) = objects s"
  "boardVersion (saveToHistory r newObjects s) = boardVersion s"
  "emitted (saveToHistory r newObjects s) = emitted s"
  "toasts (saveToHistory r newObjects s) = toasts s"
  by (simp_all add: saveToHistory_def Let_def)

lemma commitObjects_frame:
  "history (commitObjects r newObjects s) = take (historyStep r + 1) (history r) @ [newObjects]"
  "historyStep (commitObjects r newObjects s) = length (take (historyStep r + 1) (history r))"
  "objects (commitObjects r newObjects s) = newObjects"
  "boardVersion (commitObjects r newObjects s) =
     (if socket r then boardVersion r + 1 else boardVersion s)"
  by (simp_all add: commitObjects_def broadcastUpdate_frame broadcastUpdate_version
      saveToHistory_frame)

lemma moved_cursor_frame:
  "history (broadcastUpdate t X (t\<lparr>historyStep := n, objects := X\<rparr>)) = history t"
  "historyStep (broadcastUpdate t X (t\<lparr>historyStep := n, objects := X\<rparr>)) = n"
  "objects (broadcastUpdate t X (t\<lparr>historyStep := n, objects := X\<rparr>)) = X"
  by (simp_all add: broadcastUpdate_frame)

lemma commit_at:
  assumes "history r = hs @ X # rest" and "historyStep r = length hs"
  shows "history (commitObjects r Y s) = hs @ [X, Y]"
    and "historyStep (commitObjects r Y s) = Suc (length hs)"
  using assms by (simp_all add: commitObjects_frame)

lemma undo_at_end:
  assumes "history t = hs @ [X, Y]" and "historyStep t = Suc (length hs)"
  shows "handleUndo t =
     Inr (broadcastUpdate t X (t\<lparr>historyStep := length hs, objects := X\<rparr>))"
  using assms by (simp add: handleUndo_def Let_def nth_append)

lemma redo_at_end:
  assumes "history t = hs @ [X]" and "historyStep t = length hs"
  shows "handleRedo t = Inr t"
  using assms by (simp add: handleRedo_def)

section \<open>History\<close>

text \<open>
  C3. From every history state, after commit A, commit B, undo, commit C, a redo is a no-op
  (the snapshot list is the kept prefix followed by A and C, so B is gone) and an undo
  gives back snapshot A. A commit truncates the snapshots to cursor + 1, appends the new
  snapshot and sets the cursor to the last index; undo is a no-op at cursor 0 and redo is a
  no-op at the last index.
\<close>

theorem history_linear:
  "(let s2 = commitObjects (commitObjects s A s) B (commitObjects s A s) in
    \<exists>s3. handleUndo s2 = Inr s3 \<and> objects s3 = A
      \<and> (let s4 = commitObjects s3 C s3 in
           history s4 = take (historyStep s + 1) (history s) @ [A, C]
         \<and> historyStep s4 = length (history s4) - 1
         \<and> handleRedo s4 = Inr s4
         \<and> (\<exists>s5. handleUndo s4 = Inr s5 \<and> objects s5 = A)))
   \<and> history (commitObjects s A s) = take (historyStep s + 1) (history s) @ [A]
   \<and> historyStep (commitObjects s A s) = length (history (commitObjects s A s)) - 1
   \<and> (historyStep s = 0 \<longrightarrow> handleUndo s = Inr s)
   \<and> (int (historyStep s) = int (length (history s)) - 1 \<longrightarrow> handleRedo s = Inr s)"
proof -
  let ?hs = "take (historyStep s + 1) (history s)"
  let ?s1 = "commitObjects s A s"
  let ?s2 = "commitObjects ?s1 B ?s1"
  let ?s3 = "broadcastUpdate ?s2 A (?s2\<lparr>historyStep := length ?hs, objects := A\<rparr>)"
  let ?s4 = "commitObjects ?s3 C ?s3"
  let ?s5 = "broadcastUpdate ?s4 A (?s4\<lparr>historyStep := length ?hs, objects := A\<rparr>)"
  have h1: "history ?s1 = ?hs @ [A]" and k1: "historyStep ?s1 = length ?hs"
    by (simp_all add: commitObjects_frame)
  have h2: "history ?s2 = ?hs @ [A, B]" and k2: "historyStep ?s2 = Suc (length ?hs)"
    by (rule commit_at [OF h1 k1])+
  have u2: "handleUndo ?s2 = Inr ?s3"
    by (rule undo_at_end [OF h2 k2])
  have h3: "history ?s3 = ?hs @ [A, B]" and k3: "historyStep ?s3 = length ?hs"
    and o3: "objects ?s3 = A"
    unfolding moved_cursor_frame by (rule h2 refl)+
  have h4: "history ?s4 = ?hs @ [A, C]" and k4: "historyStep ?s4 = Suc (length ?hs)"
    by (rule commit_at [OF h3 k3])+
  have k4': "historyStep ?s4 = length (history ?s4) - 1"
    unfolding h4 k4 by simp
  have r4: "handleRedo ?s4 = Inr ?s4"
  proof (rule redo_at_end [of ?s4 "?hs @ [A]" C])
    show "history ?s4 = (?hs @ [A]) @ [C]" unfolding h4 by simp
    show "historyStep ?s4 = length (?hs @ [A])" unfolding k4 by simp
  qed
  have u4: "handleUndo ?s4 = Inr ?s5"
    by (rule undo_at_end [OF h4 k4])
  have o5: "objects ?s5 = A"
    by (rule moved_cursor_frame)
  have g1: "history (commitObjects s A s) = take (historyStep s + 1) (history s) @ [A]"
    by (simp add: commitObjects_frame)
  have g2: "historyStep (commitObjects s A s) = length (history (commitObjects s A s)) - 1"
    by (simp add: commitObjects_frame)
  have g3: "historyStep s = 0 \<longrightarrow> handleUndo s = Inr s"
    by (simp add: handleUndo_def)
  have g4: "int (historyStep s) = int (length (history s)) - 1 \<longrightarrow> handleRedo s = Inr s"
    by (simp add: handleRedo_def)
  show ?thesis
    unfolding Let_def
    using u2 o3 h4 k4' r4 u4 o5 g1 g2 g3 g4 by blast
qed


theorem history_linear_witness:
  "historyStep (session [[]] 0 0 True) = 0
   \<and> handleUndo (session [[]] 0 0 True) = Inr (session [[]] 0 0 True)
   \<and> int (historyStep (session [[]] 0 0 True)) = int (length (history (session [[]] 0 0 True))) - 1
   \<and> handleRedo (session [[]] 0 0 True) = Inr (session [[]] 0 0 True)
   \<and> history (commitObjects (session [[]] 0 0 True) [circle_object ''a'' 1 1 1]
         (session [[]] 0 0 True)) = [[], [circle_object ''a'' 1 1 1]]"
  using history_linear [of "session [[]] 0 0 True" "[circle_object ''a'' 1 1 1]"
      "[circle_object ''b'' 2 2 2]" "[circle_object ''c'' 3 3 3]"]
  by (simp add: session_def)







section \<open>Suggestions\<close>

text \<open>
  C5. Applying any suggestion while the objects list is empty fails: the result is
  \<open>false\<close>, the error toast is shown, and objects, version, history and the emitted
  messages are unchanged.
\<close>

theorem apply_suggestion_no_target:
  assumes "objects r = []"
  shows "fst (applySuggestion r now now' sg s) = False
       \<and> objects (snd (applySuggestion r now now' sg s)) = objects s
       \<and> boardVersion (snd (applySuggestion r now now' sg s)) = boardVersion s
       \<and> history (snd (applySuggestion r now now' sg s)) = history s
       \<and> historyStep (snd (applySuggestion r now now' sg s)) = historyStep s
       \<and> emitted (snd (applySuggestion r now now' sg s)) = emitted s
       \<and> toasts (snd (applySuggestion r now now' sg s)) =
           toasts s @ [ToastError ''Draw something first to apply suggestions'']"
  using assms by (simp add: applySuggestion_def getPrimaryObject_def)

theorem apply_suggestion_no_target_witness:
  "objects (session [[]] 0 7 True) = []
   \<and> fst (applySuggestion (session [[]] 0 7 True) 1 2
        \<lparr>sg_id = ''s1'', sg_type = Some ''shape_clean'', sg_title = Some ''Tidy'',
         sg_description = None\<rparr> (session [[]] 0 7 True)) = False
   \<and> objects (snd (applySuggestion (session [[]] 0 7 True) 1 2
        \<lparr>sg_id = ''s1'', sg_type = Some ''shape_clean'', sg_title = Some ''Tidy'',
         sg_description = None\<rparr> (session [[]] 0 7 True))) = []
   \<and> boardVersion (snd (applySuggestion (session [[]] 0 7 True) 1 2
        \<lparr>sg_id = ''s1'', sg_type = Some ''shape_clean'', sg_title = Some ''Tidy'',
         sg_description = None\<rparr> (session [[]] 0 7 True))) = 7"
  using apply_suggestion_no_target [of "session [[]] 0 7 True" 1 2
      "\<lparr>sg_id = ''s1'', sg_type = Some ''shape_clean'', sg_title = Some ''Tidy'',
         sg_description = None\<rparr>" "session [[]] 0 7 True"]
  by (simp add: session_def)

section \<open>Bounding boxes\<close>

text \<open>
  C6. For every rectangle object, with x, y, width and height any numbers, negative
  width and height included, \<open>getBoundingBox\<close> returns a box of non-negative width and
  height that spans the same two corners as the stored rectangle: from the smaller to the
  larger of \<open>x\<close> and \<open>x + width\<close>, and of \<open>y\<close> and \<open>y + height\<close>.
\<close>

theorem rectangle_box_normalized:
  assumes "obj_type obj = TOOLS_RECTANGLE"
    and "data_x (obj_data obj) = Number (Num x)"
    and "data_y (obj_data obj) = Number (Num y)"
    and "data_width (obj_data obj) = Number (Num w)"
    and "data_height (obj_data obj) = Number (Num h)"
  shows "\<exists>bx by bw bh.
      getBoundingBox (Some obj) =
        Some \<lparr>box_x = Number (Num bx), box_y = Number (Num by),
              box_width = Number (Num bw), box_height = Number (Num bh)\<rparr>
      \<and> 0 \<le> bw \<and> 0 \<le> bh
      \<and> bx = min x (x + w) \<and> bx + bw = max x (x + w)
      \<and> by = min y (y + h) \<and> by + bh = max y (y + h)"
  using assms by (auto simp: getBoundingBox_def Let_def js_sub_def min_def max_def)

theorem rectangle_box_normalized_witness:
  "getBoundingBox (Some (rectangle_object ''r'' 10 20 (-4) (-6))) =
     Some \<lparr>box_x = Number (Num 6), box_y = Number (Num 14),
           box_width = Number (Num 4), box_height = Number (Num 6)\<rparr>"
  using rectangle_box_normalized [of "rectangle_object ''r'' 10 20 (-4) (-6)" 10 20 "-4" "-6"]
  by (simp add: rectangle_object_def empty_data_def)

lemma pts_at_shift: "pts_at (x # y # pts) (Suc (Suc i)) = pts_at pts i"
  by (simp add: pts_at_def)

lemma bbox_loop_shift:
  "bbox_loop (x # y # pts) (Suc (Suc i)) acc = bbox_loop pts i acc"
proof (induction pts i acc rule: bbox_loop.induct)
  case (1 pts i minX maxX minY maxY)
  show ?case
  proof (cases "i < length pts")
    case True
    have L: "bbox_loop (x # y # pts) (Suc (Suc i)) (minX, maxX, minY, maxY) =
        bbox_loop (x # y # pts) (Suc (Suc (i + 2)))
          (Math_min minX (pts_at pts i), Math_max maxX (pts_at pts i),
           Math_min minY (pts_at pts (i + 1)), Math_max maxY (pts_at pts (i + 1)))"
      using True pts_at_shift [of x y pts i] pts_at_shift [of x y pts "i + 1"]
      by (subst bbox_loop.simps) simp
    have R: "bbox_loop pts i (minX, maxX, minY, maxY) =
        bbox_loop pts (i + 2)
          (Math_min minX (pts_at pts i), Math_max maxX (pts_at pts i),
           Math_min minY (pts_at pts (i + 1)), Math_max maxY (pts_at pts (i + 1)))"
      using True by (subst bbox_loop.simps) simp
    show ?thesis
      unfolding L R by (rule "1.IH" [OF True])
  next
    case False
    then show ?thesis
      by (subst bbox_loop.simps, subst (2) bbox_loop.simps) simp
  qed
qed

lemma bbox_loop_pair:
  "bbox_loop (x # y # pts) 0 (minX, maxX, minY, maxY) =
     bbox_loop pts 0
       (Math_min minX (toNumber x), Math_max maxX (toNumber x),
        Math_min minY (toNumber y), Math_max maxY (toNumber y))"
  by (subst bbox_loop.simps) (simp add: pts_at_def bbox_loop_shift)

lemma bbox_loop_nil: "bbox_loop [] 0 acc = acc"
  by (cases acc) (simp add: bbox_loop.simps)

lemma bbox_loop_finite:
  "even (length rs) \<Longrightarrow>
   bbox_loop (map (\<lambda>v. Number (Num v)) rs) 0 (Num a, Num b, Num c, Num d) =
     (Num (fold min (xs_of rs) a), Num (fold max (xs_of rs) b),
      Num (fold min (ys_of rs) c), Num (fold max (ys_of rs) d))"
proof (induction rs arbitrary: a b c d rule: xs_of.induct)
  case (1 x y r)
  then show ?case by (simp add: bbox_loop_pair min.commute max.commute)
next
  case (2 x)
  then show ?case by simp
next
  case 3
  show ?case by (simp add: bbox_loop_nil)
qed

lemma bbox_loop_span:
  assumes "even (length rs)" and "2 \<le> length rs"
  shows "bbox_loop (map (\<lambda>v. Number (Num v)) rs) 0 (PosInf, NegInf, PosInf, NegInf) =
     (Num (Min (set (xs_of rs))), Num (Max (set (xs_of rs))),
      Num (Min (set (ys_of rs))), Num (Max (set (ys_of rs))))"
proof -
  from assms obtain x y r where rs: "rs = x # y # r"
    by (cases rs rule: xs_of.cases) auto
  with assms have ev: "even (length r)" by simp
  have e: "xs_of rs = x # xs_of r" "ys_of rs = y # ys_of r"
    by (simp_all add: rs)
  have m: "Min (set (xs_of rs)) = fold min (xs_of r) x"
    "Max (set (xs_of rs)) = fold max (xs_of r) x"
    "Min (set (ys_of rs)) = fold min (ys_of r) y"
    "Max (set (ys_of rs)) = fold max (ys_of r) y"
    unfolding e by (rule Min.set_eq_fold Max.set_eq_fold)+
  have "bbox_loop (map (\<lambda>v. Number (Num v)) rs) 0 (PosInf, NegInf, PosInf, NegInf) =
      bbox_loop (map (\<lambda>v. Number (Num v)) r) 0 (Num x, Num x, Num y, Num y)"
    by (simp add: rs bbox_loop_pair)
  then show ?thesis
    unfolding m by (simp only: bbox_loop_finite [OF ev])
qed

text \<open>
  A pen stroke of one coordinate pair has fewer than two pairs, and \<open>getBoundingBox\<close>
  returns a box for it: the point itself, with width and height 0.
\<close>

theorem point_list_box_counterexample:
  "length [1, 2 :: real] < 4
   \<and> getBoundingBox (Some (pen_object ''p'' [1, 2])) =
       Some \<lparr>box_x = Number (Num 1), box_y = Number (Num 2),
             box_width = Number (Num 0), box_height = Number (Num 0)\<rparr>"
  by (simp add: getBoundingBox_def pen_object_def empty_data_def bbox_loop_pair bbox_loop_nil
      js_sub_def)

text \<open>
  C7, amended. For every pen or arrow object, \<open>getBoundingBox\<close> returns absent exactly
  when the point list is missing or holds fewer than 2 numbers, that is less than one
  coordinate pair; for a list of one or more whole pairs of numbers it returns the box
  from the minimum to the maximum of the abscissas and of the ordinates, each on its own.
\<close>

theorem point_list_box:
  assumes "obj_type obj = TOOLS_PEN \<or> obj_type obj = TOOLS_ARROW"
  shows "(getBoundingBox (Some obj) = None \<longleftrightarrow>
            length (case data_points (obj_data obj) of Some p \<Rightarrow> p | None \<Rightarrow> []) < 2)
       \<and> (data_points (obj_data obj) = Some (map (\<lambda>v. Number (Num v)) rs)
            \<and> even (length rs) \<and> 2 \<le> length rs \<longrightarrow>
          getBoundingBox (Some obj) =
            Some \<lparr>box_x = Number (Num (Min (set (xs_of rs)))),
                  box_y = Number (Num (Min (set (ys_of rs)))),
                  box_width = Number (Num (Max (set (xs_of rs)) - Min (set (xs_of rs)))),
                  box_height = Number (Num (Max (set (ys_of rs)) - Min (set (ys_of rs))))\<rparr>)"
proof (intro conjI impI)
  show "getBoundingBox (Some obj) = None \<longleftrightarrow>
            length (case data_points (obj_data obj) of Some p \<Rightarrow> p | None \<Rightarrow> []) < 2"
    using assms by (auto simp: getBoundingBox_def Let_def split: prod.splits)
next
  assume a: "data_points (obj_data obj) = Some (map (\<lambda>v. Number (Num v)) rs)
            \<and> even (length rs) \<and> 2 \<le> length rs"
  then have "\<not> length rs < 2" by simp
  with a assms show "getBoundingBox (Some obj) =
            Some \<lparr>box_x = Number (Num (Min (set (xs_of rs)))),
                  box_y = Number (Num (Min (set (ys_of rs)))),
                  box_width = Number (Num (Max (set (xs_of rs)) - Min (set (xs_of rs)))),
                  box_height = Number (Num (Max (set (ys_of rs)) - Min (set (ys_of rs))))\<rparr>"
    by (auto simp: getBoundingBox_def Let_def bbox_loop_span js_sub_def)
qed

theorem point_list_box_witness:
  "getBoundingBox (Some (pen_object ''p'' [3, 8, 1, 9, 5, 2])) =
     Some \<lparr>box_x = Number (Num 1), box_y = Number (Num 2),
           box_width = Number (Num 4), box_height = Number (Num 7)\<rparr>
   \<and> (getBoundingBox (Some (pen_object ''p'' [3, 8, 1, 9, 5, 2])) = None \<longleftrightarrow>
        length (case data_points (obj_data (pen_object ''p'' [3, 8, 1, 9, 5, 2])) of
                  Some p \<Rightarrow> p | None \<Rightarrow> []) < 2)"
  using point_list_box [of "pen_object ''p'' [3, 8, 1, 9, 5, 2]" "[3, 8, 1, 9, 5, 2]"]
  by (simp add: pen_object_def empty_data_def)

section \<open>Placement from a prompt\<close>

lemma lower_below: "toLowerCase ''add a circle below'' = ''add a circle below''"
  by (simp add: toLowerCase_def toLowerChar_def)

lemma quantity_below: "prompt_quantity ''add a circle below'' = 1"
  by (simp add: prompt_quantity_def number_here_def number_words_def isDigit_def)

lemma shape_below: "shapeToCreate ''add a circle below'' = Some ''circle''"
  by (simp add: after_verb_def isSpace_def isWordChar_def)

lemma newShape_below:
  "prompt_newShape now ''add a circle below'' ''add a circle below'' c = Some (circle_shape now c)"
  unfolding prompt_newShape_def shape_below by simp

lemma placement_below:
  assumes "fst (prompt_placement vp ''add a circle below'' objs) = Some ref"
  shows "snd (prompt_placement vp ''add a circle below'' objs) =
           center_below ref (viewport_center vp)"
  using assms by (simp add: prompt_placement_def split: option.splits)

lemma center_below_rectangle:
  assumes "obj_type ref = TOOLS_RECTANGLE"
    and "data_x (obj_data ref) = Number (Num x)"
    and "data_y (obj_data ref) = Number (Num y)"
    and "data_width (obj_data ref) = Number (Num w)"
    and "data_height (obj_data ref) = Number (Num h)"
  shows "center_below ref c =
     (Number (Num (x + w / 2)), Number (Num (y + h + baseSize / 2 + spacing)))"
  using assms by (simp add: center_below_def Let_def)

lemma string_of_nat_0: "string_of_nat 0 = ''0''"
  by (simp add: string_of_nat.simps digit_char_def)

lemma single_circle_instance:
  "prompt_instance (circle_shape now0 (Number (Num cx), Number (Num cy))) (Suc 0) 0 now =
     \<lparr>obj_id = ''shape-'' @ string_of_nat now @ ''-0'', obj_type = TOOLS_CIRCLE,
      obj_data = empty_data
        \<lparr>data_x := Number (Num cx), data_y := Number (Num cy),
         data_radius := Number (Num (baseSize / 2)),
         data_stroke := Some ''#18181B'', data_strokeWidth := Number (Num 2)\<rparr>\<rparr>"
  by (simp add: prompt_instance_def circle_shape_def JSON_clone_def row_offset_def
      plus_offset_def empty_data_def string_of_nat_0 Let_def)

text \<open>
  C9. On a board where the reference object of the prompt "add a circle below" is a
  rectangle with x = 100, y = 100, width = 50, height = 50, the interpreter appends one
  circle whose centre is at x = 125, the horizontal centre of the rectangle, and at
  y = 100 + 50 + baseSize / 2 + spacing, its bottom edge plus half the new size plus the
  spacing.
\<close>

theorem circle_below_rectangle:
  assumes "fst (prompt_placement vp (toLowerCase ''add a circle below'') (objects r)) = Some ref"
    and "obj_type ref = TOOLS_RECTANGLE"
    and "data_x (obj_data ref) = Number (Num 100)"
    and "data_y (obj_data ref) = Number (Num 100)"
    and "data_width (obj_data ref) = Number (Num 50)"
    and "data_height (obj_data ref) = Number (Num 50)"
  shows "fst (createShapeFromPrompt r vp clock ''add a circle below'' s) = True
       \<and> objects (snd (createShapeFromPrompt r vp clock ''add a circle below'' s)) =
           objects r @
           [\<lparr>obj_id = ''shape-'' @ string_of_nat (clock 1) @ ''-0'', obj_type = TOOLS_CIRCLE,
             obj_data = empty_data
               \<lparr>data_x := Number (Num 125),
                data_y := Number (Num (100 + 50 + baseSize / 2 + spacing)),
                data_radius := Number (Num (baseSize / 2)),
                data_stroke := Some ''#18181B'', data_strokeWidth := Number (Num 2)\<rparr>\<rparr>]"
proof -
  have c: "snd (prompt_placement vp ''add a circle below'' (objects r)) =
      (Number (Num 125), Number (Num (100 + 50 + baseSize / 2 + spacing)))"
    using placement_below [of vp "objects r" ref] assms(1)
      center_below_rectangle [OF assms(2-6), of "viewport_center vp"]
    by (simp add: lower_below)
  show ?thesis
    by (simp add: createShapeFromPrompt_def lower_below quantity_below newShape_below c
        single_circle_instance commitObjects_frame Let_def)
qed

theorem circle_below_rectangle_witness:
  "fst (prompt_placement \<lparr>innerWidth = 1280, innerHeight = 720\<rparr>
          (toLowerCase ''add a circle below'')
          (objects (session [[rectangle_object ''r'' 100 100 50 50]] 0 1 True)))
     = Some (rectangle_object ''r'' 100 100 50 50)
   \<and> objects (snd (createShapeFromPrompt
         (session [[rectangle_object ''r'' 100 100 50 50]] 0 1 True)
         \<lparr>innerWidth = 1280, innerHeight = 720\<rparr> (\<lambda>k. 1000 + k) ''add a circle below''
         (session [[rectangle_object ''r'' 100 100 50 50]] 0 1 True))) =
       [rectangle_object ''r'' 100 100 50 50,
        \<lparr>obj_id = ''shape-1001-0'', obj_type = TOOLS_CIRCLE,
         obj_data = empty_data
           \<lparr>data_x := Number (Num 125), data_y := Number (Num 275),
            data_radius := Number (Num 75),
            data_stroke := Some ''#18181B'', data_strokeWidth := Number (Num 2)\<rparr>\<rparr>]"
proof -
  have p: "fst (prompt_placement \<lparr>innerWidth = 1280, innerHeight = 720\<rparr>
          (toLowerCase ''add a circle below'')
          (objects (session [[rectangle_object ''r'' 100 100 50 50]] 0 1 True)))
     = Some (rectangle_object ''r'' 100 100 50 50)"
    by (simp add: lower_below prompt_placement_def reference_or_last_def kind_reference_def
        find_type_def session_def rectangle_object_def)
  have n: "string_of_nat 1001 = ''1001''"
    by (simp add: string_of_nat.simps digit_char_def)
  show ?thesis
    using p circle_below_rectangle [OF p, of "\<lambda>k. 1000 + k"
        "session [[rectangle_object ''r'' 100 100 50 50]] 0 1 True"]
    by (simp add: rectangle_object_def empty_data_def session_def baseSize_def spacing_def n)
qed

section \<open>The reference object of a prompt\<close>

lemma lower_beside:
  "toLowerCase ''add a rectangle beside the circle'' = ''add a rectangle beside the circle''"
  by (simp add: toLowerCase_def toLowerChar_def)

lemma quantity_beside: "prompt_quantity ''add a rectangle beside the circle'' = 1"
  by (simp add: prompt_quantity_def number_here_def number_words_def isDigit_def)

lemma shape_beside: "shapeToCreate ''add a rectangle beside the circle'' = Some ''rectangle''"
  by (simp add: after_verb_def isSpace_def isWordChar_def)

lemma newShape_beside:
  "prompt_newShape now ''add a rectangle beside the circle''
     ''add a rectangle beside the circle'' c = Some (rectangle_shape now c)"
  unfolding prompt_newShape_def shape_beside by simp

lemma single_rectangle_instance:
  "prompt_instance (rectangle_shape now0 (Number (Num cx), Number (Num cy))) (Suc 0) 0 now =
     \<lparr>obj_id = ''shape-'' @ string_of_nat now @ ''-0'', obj_type = TOOLS_RECTANGLE,
      obj_data = empty_data
        \<lparr>data_x := Number (Num (cx - baseSize / 2)), data_y := Number (Num (cy - baseSize / 2)),
         data_width := Number (Num baseSize), data_height := Number (Num baseSize),
         data_stroke := Some ''#18181B'', data_strokeWidth := Number (Num 2)\<rparr>\<rparr>"
  by (simp add: prompt_instance_def rectangle_shape_def JSON_clone_def row_offset_def
      plus_offset_def empty_data_def string_of_nat_0 js_sub_def Let_def)

text \<open>
  C8. The claim is that under each of the four groups of directional words the reference
  is sought first by the kind the prompt names, the most recent first, and is the last
  object only when no kind is named or found. On the board of a circle followed by a
  rectangle, the prompt "add a rectangle beside the circle" names a circle, and the search
  by kind that the branches for below and above run finds that circle; the branch for
  beside takes the last object, the rectangle, and the new rectangle is put to the right
  of it, at x = 400 and y = 250.
\<close>

theorem beside_ignores_named_kind:
  "kind_reference (toLowerCase ''add a rectangle beside the circle'')
     [circle_object ''c'' 100 100 40, rectangle_object ''r'' 300 300 50 50]
     = Some (circle_object ''c'' 100 100 40)
   \<and> fst (prompt_placement \<lparr>innerWidth = 1280, innerHeight = 720\<rparr>
          (toLowerCase ''add a rectangle beside the circle'')
          [circle_object ''c'' 100 100 40, rectangle_object ''r'' 300 300 50 50])
     = Some (rectangle_object ''r'' 300 300 50 50)
   \<and> objects (snd (createShapeFromPrompt
         (session [[circle_object ''c'' 100 100 40, rectangle_object ''r'' 300 300 50 50]] 0 1 True)
         \<lparr>innerWidth = 1280, innerHeight = 720\<rparr> (\<lambda>k. 1000 + k)
         ''add a rectangle beside the circle''
         (session [[circle_object ''c'' 100 100 40, rectangle_object ''r'' 300 300 50 50]] 0 1 True)))
     = [circle_object ''c'' 100 100 40, rectangle_object ''r'' 300 300 50 50,
        \<lparr>obj_id = ''shape-1001-0'', obj_type = TOOLS_RECTANGLE,
         obj_data = empty_data
           \<lparr>data_x := Number (Num 400), data_y := Number (Num 250),
            data_width := Number (Num 150), data_height := Number (Num 150),
            data_stroke := Some ''#18181B'', data_strokeWidth := Number (Num 2)\<rparr>\<rparr>]"
proof -
  let ?objs = "[circle_object ''c'' 100 100 40, rectangle_object ''r'' 300 300 50 50]"
  let ?vp = "\<lparr>innerWidth = 1280, innerHeight = 720\<rparr>"
  have k: "kind_reference ''add a rectangle beside the circle'' ?objs
      = Some (circle_object ''c'' 100 100 40)"
    by (simp add: kind_reference_def find_type_def circle_object_def rectangle_object_def)
  have p: "prompt_placement ?vp ''add a rectangle beside the circle'' ?objs
      = (Some (rectangle_object ''r'' 300 300 50 50), (Number (Num 475), Number (Num 325)))"
    by (simp add: prompt_placement_def center_right_def rectangle_object_def empty_data_def
        baseSize_def spacing_def)
  have n: "string_of_nat 1001 = ''1001''"
    by (simp add: string_of_nat.simps digit_char_def)
  have o: "objects (session [?objs] 0 1 True) = ?objs"
    by (simp add: session_def)
  have c: "objects (snd (createShapeFromPrompt (session [?objs] 0 1 True) ?vp (\<lambda>k. 1000 + k)
         ''add a rectangle beside the circle'' (session [?objs] 0 1 True)))
     = ?objs @
        [\<lparr>obj_id = ''shape-1001-0'', obj_type = TOOLS_RECTANGLE,
         obj_data = empty_data
           \<lparr>data_x := Number (Num 400), data_y := Number (Num 250),
            data_width := Number (Num 150), data_height := Number (Num 150),
            data_stroke := Some ''#18181B'', data_strokeWidth := Number (Num 2)\<rparr>\<rparr>]"
    by (simp add: createShapeFromPrompt_def lower_beside quantity_beside newShape_beside o p
        single_rectangle_instance commitObjects_frame Let_def n baseSize_def)
  show ?thesis
    using k p c by (simp add: lower_beside)
qed

section \<open>The version\<close>






















end
